theory Spec2Isabelle
  imports Complex_Main "HOL-Library.Word"
begin

section \<open>Values and objects\<close>

text \<open>
  The canvas widget of \<^verbatim>\<open>labelme/widgets/canvas.py\<close> works on Python objects that are
  shared and mutated in place (a shape is at once an element of \<^verbatim>\<open>self.shapes\<close>, of
  \<^verbatim>\<open>self.selectedShapes\<close> and the value of \<^verbatim>\<open>self.hShape\<close>).  Objects are therefore
  kept in an explicit store: a reference is a natural number, the store maps references to
  the fields of the object, and a fresh reference is taken from a counter.

  Coordinates are Qt's \<^verbatim>\<open>qreal\<close>; they are modelled by the real numbers.  The
  statements on moving a selection are about exact arithmetic and say nothing on rounding.
  In \<^verbatim>\<open>intersectingEdges\<close>, whose outcome hangs on comparisons of computed quotients,
  the rounding of every floating-point operation is part of the model.
\<close>

type_synonym ref = nat

type_synonym QPointF = "real \<times> real"

datatype py_error = IndexError | ValueError | AssertionError | AttributeError | TypeError

datatype highlight_mode = MOVE_VERTEX | NEAR_VERTEX

text \<open>
  Modelled from the spec: the class \<^verbatim>\<open>Shape\<close> of \<^verbatim>\<open>labelme/shape.py\<close> is not part of
  the sources at hand.  The record holds the fields of the spec's data model (kind,
  ordered vertices, per-vertex prompt labels, closed flag, label, optional mask raster and
  the presentation flags selected and highlighted vertex).
\<close>

record Shape =
  points :: "QPointF list"
  point_labels :: "int list"
  shape_type :: string
  shape_closed :: bool
  selected :: bool
  label :: "string option"
  shape_mask :: "bool list list option"
  highlightIndex :: "nat option"
  highlightMode :: highlight_mode

text \<open>Modelled from the spec: a shape as its constructor leaves it (no vertex, open).\<close>

definition Shape_new :: "string \<Rightarrow> Shape" where
  "Shape_new st =
     \<lparr>points = [], point_labels = [], shape_type = st, shape_closed = False,
      selected = False, label = None, shape_mask = None, highlightIndex = None,
      highlightMode = NEAR_VERTEX\<rparr>"

text \<open>
  A pixmap: its identity as an object, its size, and the bytes of its image
  (\<^verbatim>\<open>toImage().constBits().asstring(sizeInBytes())\<close>, or nothing for a null image).
\<close>

record QPixmap =
  pm_id :: nat
  pm_width :: int
  pm_height :: int
  pm_bits :: "8 word list option"

datatype canvas_mode = CREATE | EDIT

record canvas =
  epsilon :: real
  double_click :: "string option"
  num_backups :: int
  mode :: canvas_mode
  shapes :: "ref list"
  shapesBackups :: "ref list list"
  current :: "ref option"
  selectedShapes :: "ref list"
  selectedShapesCopy :: "ref list"
  line :: ref
  prevPoint :: QPointF
  prevMovePoint :: QPointF
  offsets :: "QPointF \<times> QPointF"
  scale_factor :: real
  pixmap :: QPixmap
  visible :: "ref \<rightharpoonup> bool"
  hideBackround :: bool
  hideBackround_eff :: bool
  hShape :: "ref option"
  prevhShape :: "ref option"
  hVertex :: "nat option"
  prevhVertex :: "nat option"
  hEdge :: "nat option"
  prevhEdge :: "nat option"
  movingShape :: bool
  snapping :: bool
  hShapeIsSelected :: bool
  createMode :: string
  ai_model_name :: string
  heap :: "ref \<Rightarrow> Shape"
  next_ref :: ref

text \<open>
  \<^verbatim>\<open>Canvas.__init__\<close>: the keyword arguments \<^verbatim>\<open>epsilon\<close>, \<^verbatim>\<open>double_click\<close> and
  \<^verbatim>\<open>num_backups\<close>, then the initial local state.  The rubber-band shape \<^verbatim>\<open>self.line\<close>
  is the first object of the store.  Cursor, menus, painter, timers and the zoom marquee
  are presentation and are left out of the state, as are the Qt signals and the requests
  to repaint in the methods below.  Three fields are renamed: \<open>scale_factor\<close> is
  \<^verbatim>\<open>self.scale\<close>, \<open>hideBackround_eff\<close> is \<^verbatim>\<open>self._hideBackround\<close>, and in a shape
  \<open>shape_closed\<close> and \<open>shape_mask\<close> are \<^verbatim>\<open>_closed\<close> and \<^verbatim>\<open>mask\<close>.
\<close>

definition Canvas_new :: "real \<Rightarrow> string option \<Rightarrow> int \<Rightarrow> canvas" where
  "Canvas_new eps dc nb =
     \<lparr>epsilon = eps, double_click = dc, num_backups = nb, mode = EDIT, shapes = [],
      shapesBackups = [], current = None, selectedShapes = [], selectedShapesCopy = [],
      line = 0, prevPoint = (0, 0), prevMovePoint = (0, 0), offsets = ((0, 0), (0, 0)),
      scale_factor = 1, pixmap = \<lparr>pm_id = 0, pm_width = 0, pm_height = 0, pm_bits = None\<rparr>,
      visible = Map.empty, hideBackround = False, hideBackround_eff = False,
      hShape = None, prevhShape = None, hVertex = None, prevhVertex = None,
      hEdge = None, prevhEdge = None, movingShape = False, snapping = True,
      hShapeIsSelected = False, createMode = ''polygon'', ai_model_name = ''sam2:latest'',
      heap = (\<lambda>_. Shape_new ''polygon''), next_ref = 1\<rparr>"

definition Canvas_init :: "real \<Rightarrow> string option \<Rightarrow> int \<Rightarrow> py_error + canvas" where
  "Canvas_init eps dc nb =
     (if dc \<notin> {None, Some ''close''} then Inl ValueError else Inr (Canvas_new eps dc nb))"

section \<open>Edit history\<close>

text \<open>Python's \<^verbatim>\<open>xs[k:]\<close>: a negative start counts from the end, and both are clipped.\<close>

definition py_slice_from :: "'a list \<Rightarrow> int \<Rightarrow> 'a list" where
  "py_slice_from xs k =
     (let n = int (length xs);
          start = (if k < 0 then max (n + k) 0 else min k n)
      in drop (nat start) xs)"

text \<open>Python's \<^verbatim>\<open>xs.pop()\<close>: the list without its last element, and that element.\<close>

definition py_pop :: "'a list \<Rightarrow> py_error + ('a list \<times> 'a)" where
  "py_pop xs = (if xs = [] then Inl IndexError else Inr (butlast xs, last xs))"

text \<open>
  Modelled from the spec: \<^verbatim>\<open>Shape.copy\<close> (a deep copy) is not in the sources at hand.
  The copy is a new object with the fields of the original.
\<close>

definition Shape_copy :: "canvas \<Rightarrow> ref \<Rightarrow> canvas \<times> ref" where
  "Shape_copy c r =
     (c\<lparr>heap := (heap c)(next_ref c := heap c r), next_ref := Suc (next_ref c)\<rparr>, next_ref c)"

text \<open>The loop of \<^verbatim>\<open>storeShapes\<close> that fills \<^verbatim>\<open>shapesBackup\<close>.\<close>

fun copy_shapes :: "canvas \<Rightarrow> ref list \<Rightarrow> ref list \<Rightarrow> canvas \<times> ref list" where
  "copy_shapes c [] shapesBackup = (c, shapesBackup)"
| "copy_shapes c (shape # rest) shapesBackup =
     (case Shape_copy c shape of (c1, r) \<Rightarrow> copy_shapes c1 rest (shapesBackup @ [r]))"

definition storeShapes :: "canvas \<Rightarrow> canvas" where
  "storeShapes c =
     (case copy_shapes c (shapes c) [] of (c1, shapesBackup) \<Rightarrow>
        let c2 = (if int (length (shapesBackups c1)) > num_backups c1
                  then c1\<lparr>shapesBackups :=
                         py_slice_from (shapesBackups c1) (- num_backups c1 - 1)\<rparr>
                  else c1)
        in c2\<lparr>shapesBackups := shapesBackups c2 @ [shapesBackup]\<rparr>)"

definition isShapeRestorable :: "canvas \<Rightarrow> bool" where
  "isShapeRestorable c = (if length (shapesBackups c) < 2 then False else True)"

text \<open>The loop of \<^verbatim>\<open>restoreShape\<close>: \<^verbatim>\<open>shape.selected = False\<close> for each shape.\<close>

fun deselect_each :: "canvas \<Rightarrow> ref list \<Rightarrow> canvas" where
  "deselect_each c [] = c"
| "deselect_each c (shape # rest) =
     deselect_each (c\<lparr>heap := (heap c)(shape := (heap c shape)\<lparr>selected := False\<rparr>)\<rparr>) rest"

definition restoreShape :: "canvas \<Rightarrow> py_error + canvas" where
  "restoreShape c =
     (if \<not> isShapeRestorable c then Inr c
      else case py_pop (shapesBackups c) of
             Inl e \<Rightarrow> Inl e
           | Inr (bs1, latest) \<Rightarrow>
               (case py_pop bs1 of
                  Inl e \<Rightarrow> Inl e
                | Inr (bs2, shapesBackup) \<Rightarrow>
                    let c1 = c\<lparr>shapesBackups := bs2, shapes := shapesBackup,
                               selectedShapes := []\<rparr>
                    in Inr (deselect_each c1 (shapes c1))))"

section \<open>Geometry\<close>

definition QPointF_add :: "QPointF \<Rightarrow> QPointF \<Rightarrow> QPointF" where
  "QPointF_add p q = (fst p + fst q, snd p + snd q)"

definition QPointF_sub :: "QPointF \<Rightarrow> QPointF \<Rightarrow> QPointF" where
  "QPointF_sub p q = (fst p - fst q, snd p - snd q)"

text \<open>
  A Python float is an IEEE double, and an operation on floats yields the exact result
  rounded to a double.  The rounding is the parameter \<open>rnd\<close> of the functions below; the
  program is their instance for the rounding of the machine (overflow to infinity is not
  modelled).  The corners of the image are Python ints: a difference or a sum of two of
  them is exact.  Where the source mixes an int with a float the operation is a float
  operation.
\<close>

text \<open>
  Modelled from the spec: \<^verbatim>\<open>labelme.utils.distance\<close> is not in the sources at hand; the
  spec gives it as the Euclidean distance.  As in the source's calls, the argument is the
  difference of the two points, a \<^verbatim>\<open>QPointF\<close> whose coordinates are doubles.
\<close>

definition distance :: "(real \<Rightarrow> real) \<Rightarrow> QPointF \<Rightarrow> real" where
  "distance rnd p = rnd (sqrt (rnd (rnd (fst p * fst p) + rnd (snd p * snd p))))"

definition outOfPixmap :: "canvas \<Rightarrow> QPointF \<Rightarrow> bool" where
  "outOfPixmap c p =
     (let w = real_of_int (pm_width (pixmap c)); h = real_of_int (pm_height (pixmap c))
      in \<not> (0 \<le> fst p \<and> fst p \<le> w - 1 \<and> 0 \<le> snd p \<and> snd p \<le> h - 1))"

text \<open>
  One turn of the loop of \<^verbatim>\<open>intersectingEdges\<close>, for the edge from corner \<open>i\<close> to the
  next corner: \<open>None\<close> where the loop continues or yields nothing, the yielded triple
  otherwise.  The only caller passes the four corners of the image, so \<open>points\<close> has four
  elements and both indices are in range.
\<close>

definition edge_candidate ::
  "(real \<Rightarrow> real) \<Rightarrow> QPointF \<Rightarrow> QPointF \<Rightarrow> QPointF list \<Rightarrow> nat
     \<Rightarrow> (real \<times> nat \<times> QPointF) option" where
  "edge_candidate rnd point1 point2 pts i =
     (case (point1, point2, pts ! i, pts ! ((i + 1) mod 4)) of
        ((x1, y1), (x2, y2), (x3, y3), (x4, y4)) \<Rightarrow>
          let denom = rnd (rnd ((y4 - y3) * rnd (x2 - x1)) - rnd ((x4 - x3) * rnd (y2 - y1)));
              nua = rnd (rnd ((x4 - x3) * rnd (y1 - y3)) - rnd ((y4 - y3) * rnd (x1 - x3)));
              nub = rnd (rnd (rnd (x2 - x1) * rnd (y1 - y3)) - rnd (rnd (y2 - y1) * rnd (x1 - x3)))
          in if denom = 0 then None
             else let ua = rnd (nua / denom); ub = rnd (nub / denom)
                  in if 0 \<le> ua \<and> ua \<le> 1 \<and> 0 \<le> ub \<and> ub \<le> 1
                     then let x = rnd (x1 + rnd (ua * rnd (x2 - x1)));
                              y = rnd (y1 + rnd (ua * rnd (y2 - y1)));
                              m = (rnd ((x3 + x4) / 2), rnd ((y3 + y4) / 2));
                              d = distance rnd (rnd (fst m - x2), rnd (snd m - y2))
                          in Some (d, i, (x, y))
                     else None)"

definition intersectingEdges ::
  "(real \<Rightarrow> real) \<Rightarrow> QPointF \<Rightarrow> QPointF \<Rightarrow> QPointF list \<Rightarrow> (real \<times> nat \<times> QPointF) list" where
  "intersectingEdges rnd point1 point2 pts =
     List.map_filter (edge_candidate rnd point1 point2 pts) [0..<4]"

text \<open>
  Python compares the yielded tuples \<^verbatim>\<open>(d, i, (x, y))\<close> lexicographically, and
  \<^verbatim>\<open>min\<close> keeps the first of the least elements; on an empty sequence it raises
  \<^verbatim>\<open>ValueError\<close>.
\<close>

definition tuple_less :: "real \<times> nat \<times> QPointF \<Rightarrow> real \<times> nat \<times> QPointF \<Rightarrow> bool" where
  "tuple_less a b =
     (case (a, b) of
        ((d, i, (x, y)), (d', i', (x', y'))) \<Rightarrow>
          d < d' \<or> (d = d' \<and> (i < i' \<or> (i = i' \<and> (x < x' \<or> (x = x' \<and> y < y'))))))"

fun py_min_from ::
  "real \<times> nat \<times> QPointF \<Rightarrow> (real \<times> nat \<times> QPointF) list \<Rightarrow> real \<times> nat \<times> QPointF" where
  "py_min_from best [] = best"
| "py_min_from best (t # ts) = py_min_from (if tuple_less t best then t else best) ts"

definition py_min :: "(real \<times> nat \<times> QPointF) list \<Rightarrow> py_error + (real \<times> nat \<times> QPointF)" where
  "py_min ts = (case ts of [] \<Rightarrow> Inl ValueError | t # rest \<Rightarrow> Inr (py_min_from t rest))"

definition intersectionPoint ::
  "(real \<Rightarrow> real) \<Rightarrow> canvas \<Rightarrow> QPointF \<Rightarrow> QPointF \<Rightarrow> py_error + QPointF" where
  "intersectionPoint rnd c p1 p2 =
     (let w = real_of_int (pm_width (pixmap c)); h = real_of_int (pm_height (pixmap c));
          pts = [(0, 0), (w - 1, 0), (w - 1, h - 1), (0, h - 1)];
          x1 = min (max (fst p1) 0) (w - 1);
          y1 = min (max (snd p1) 0) (h - 1);
          x2 = fst p2; y2 = snd p2
      in case py_min (intersectingEdges rnd (x1, y1) (x2, y2) pts) of
           Inl e \<Rightarrow> Inl e
         | Inr (d, i, (x, y)) \<Rightarrow>
             (case (pts ! i, pts ! ((i + 1) mod 4)) of
                ((x3, y3), (x4, y4)) \<Rightarrow>
                  if (x, y) = (x1, y1)
                  then (if x3 = x4 then Inr (x3, min (max 0 y2) (max y3 y4))
                        else Inr (min (max 0 x2) (max x3 x4), y3))
                  else Inr (x, y)))"

section \<open>Moving a selection\<close>

text \<open>
  Modelled from the spec: \<^verbatim>\<open>Shape.boundingRect\<close> and \<^verbatim>\<open>Shape.moveBy\<close> are not in the
  sources at hand.  The bounding rectangle is that of the vertices, as (left, top, right,
  bottom), the null rectangle for a shape without vertex; \<^verbatim>\<open>moveBy\<close> translates all
  vertices.
\<close>

definition Shape_boundingRect :: "Shape \<Rightarrow> real \<times> real \<times> real \<times> real" where
  "Shape_boundingRect s =
     (case points s of
        [] \<Rightarrow> (0, 0, 0, 0)
      | p # ps \<Rightarrow>
          (fold min (map fst ps) (fst p), fold min (map snd ps) (snd p),
           fold max (map fst ps) (fst p), fold max (map snd ps) (snd p)))"

definition Shape_moveBy :: "Shape \<Rightarrow> QPointF \<Rightarrow> Shape" where
  "Shape_moveBy s offset = s\<lparr>points := map (\<lambda>p. QPointF_add p offset) (points s)\<rparr>"

text \<open>Python's \<^verbatim>\<open>int(x)\<close> on a float: truncation towards zero.\<close>

definition py_int :: "real \<Rightarrow> int" where
  "py_int x = (if 0 \<le> x then \<lfloor>x\<rfloor> else \<lceil>x\<rceil>)"

text \<open>
  The loop of \<^verbatim>\<open>calculateOffsets\<close> over the selected shapes; the accumulator is
  (left, right, top, bottom), written \<open>top_y\<close> and \<open>bottom_y\<close> for the last two.
\<close>

fun selection_bounds ::
  "canvas \<Rightarrow> ref list \<Rightarrow> real \<times> real \<times> real \<times> real \<Rightarrow> real \<times> real \<times> real \<times> real" where
  "selection_bounds c [] acc = acc"
| "selection_bounds c (s # rest) (left, right, top_y, bottom_y) =
     (case Shape_boundingRect (heap c s) of
        (rl, rt, rr, rb) \<Rightarrow>
          selection_bounds c rest
            (if rl < left then rl else left, if rr > right then rr else right,
             if rt < top_y then rt else top_y, if rb > bottom_y then rb else bottom_y))"

definition calculateOffsets :: "canvas \<Rightarrow> QPointF \<Rightarrow> canvas" where
  "calculateOffsets c point =
     (case selection_bounds c (selectedShapes c)
             (real_of_int (pm_width (pixmap c)) - 1, 0,
              real_of_int (pm_height (pixmap c)) - 1, 0) of
        (left, right, top_y, bottom_y) \<Rightarrow>
          let x1 = left - fst point; y1 = top_y - snd point;
              x2 = right - fst point; y2 = bottom_y - snd point
          in c\<lparr>offsets := ((real_of_int (py_int x1), real_of_int (py_int y1)),
                            (real_of_int (py_int x2), real_of_int (py_int y2)))\<rparr>)"

text \<open>The loop of \<^verbatim>\<open>boundedMoveShapes\<close>: \<^verbatim>\<open>shape.moveBy(dp)\<close> for each shape.\<close>

fun moveBy_each :: "canvas \<Rightarrow> ref list \<Rightarrow> QPointF \<Rightarrow> canvas" where
  "moveBy_each c [] dp = c"
| "moveBy_each c (shape # rest) dp =
     moveBy_each (c\<lparr>heap := (heap c)(shape := Shape_moveBy (heap c shape) dp)\<rparr>) rest dp"

text \<open>
  \<^verbatim>\<open>boundedMoveShapes\<close> returns the canvas and the Boolean result.  A \<^verbatim>\<open>QPointF\<close> is
  true unless both coordinates are zero.  The position is passed by value: the source
  updates its argument \<^verbatim>\<open>pos\<close> in place, \<open>pos1\<close> and \<open>pos2\<close> are its values after the
  first and the second correction.
\<close>

definition boundedMoveShapes :: "canvas \<Rightarrow> ref list \<Rightarrow> QPointF \<Rightarrow> canvas \<times> bool" where
  "boundedMoveShapes c shapes_arg pos =
     (if outOfPixmap c pos then (c, False)
      else
        let o1 = QPointF_add pos (fst (offsets c));
            pos1 = (if outOfPixmap c o1
                    then QPointF_sub pos (min 0 (fst o1), min 0 (snd o1))
                    else pos);
            o2 = QPointF_add pos1 (snd (offsets c));
            pos2 = (if outOfPixmap c o2
                    then QPointF_add pos1
                           (min 0 (real_of_int (pm_width (pixmap c)) - fst o2),
                            min 0 (real_of_int (pm_height (pixmap c)) - snd o2))
                    else pos1);
            dp = QPointF_sub pos2 (prevPoint c)
        in if dp \<noteq> (0, 0)
           then ((moveBy_each c shapes_arg dp)\<lparr>prevPoint := pos2\<rparr>, True)
           else (c, False))"

definition moveByKeyboard :: "canvas \<Rightarrow> QPointF \<Rightarrow> canvas" where
  "moveByKeyboard c offset =
     (if selectedShapes c \<noteq> []
      then (fst (boundedMoveShapes c (selectedShapes c) (QPointF_add (prevPoint c) offset)))
             \<lparr>movingShape := True\<rparr>
      else c)"

section \<open>Shape methods used by the canvas\<close>



definition Shape_close :: "Shape \<Rightarrow> Shape" where
  "Shape_close s = s\<lparr>shape_closed := True\<rparr>"

definition Shape_setShapeRefined ::
  "Shape \<Rightarrow> string \<Rightarrow> QPointF list \<Rightarrow> int list \<Rightarrow> bool list list option \<Rightarrow> Shape" where
  "Shape_setShapeRefined s st pts labels m =
     s\<lparr>shape_type := st, points := pts, point_labels := labels, shape_mask := m\<rparr>"

definition truthy :: "canvas \<Rightarrow> ref option \<Rightarrow> bool" where
  "truthy c ro = (case ro of None \<Rightarrow> False | Some r \<Rightarrow> points (heap c r) \<noteq> [])"


section \<open>Hover highlighting\<close>

definition drawing :: "canvas \<Rightarrow> bool" where
  "drawing c = (mode c = CREATE)"

definition editing :: "canvas \<Rightarrow> bool" where
  "editing c = (mode c = EDIT)"



definition selectedEdge :: "canvas \<Rightarrow> bool" where
  "selectedEdge c = (hEdge c \<noteq> None)"








section \<open>The AI-assist bridge\<close>

text \<open>
  The segmentation model, the extraction of a polygon from a mask, and Python's
  \<^verbatim>\<open>hash\<close> are collaborators outside the sources at hand; they are parameters of the
  model.  An embedding is an opaque handle.  \<^verbatim>\<open>encode_image\<close> stands for
  \<^verbatim>\<open>sam.encode_image\<close> applied to the pixels of the pixmap, \<^verbatim>\<open>generate\<close> for the
  annotations of the response of \<^verbatim>\<open>osam.apis.generate\<close>.
\<close>

type_synonym embedding = nat

record sam_model =
  sam_id :: nat
  sam_name :: string

record bounding_box =
  ymin :: int
  xmin :: int
  ymax :: int
  xmax :: int

record annotation =
  ann_mask :: "bool list list"
  ann_bounding_box :: "bounding_box option"

record oracles =
  py_hash_bytes :: "8 word list \<Rightarrow> int"
  py_hash_None :: int
  get_model_type_by_name :: "string \<Rightarrow> py_error + string"
  encode_image :: "sam_model \<Rightarrow> QPixmap \<Rightarrow> embedding"
  generate :: "string \<Rightarrow> embedding \<Rightarrow> QPointF list \<Rightarrow> int list \<Rightarrow> annotation list"
  mask_to_bbox :: "bool list list \<Rightarrow> int \<times> int \<times> int \<times> int"
  compute_polygon_from_mask :: "bool list list \<Rightarrow> QPointF list"

datatype log_level = DEBUG | WARNING

text \<open>
  The state at module level: the two \<^verbatim>\<open>functools.lru_cache\<close> stores (most recently used
  entry first), the sequence of calls of the embedding collaborator, and the log.
\<close>

record ai_state =
  model_cache :: "(string \<times> sam_model) list"
  embedding_cache :: "((sam_model \<times> QPixmap) \<times> embedding) list"
  encode_image_calls :: "(sam_model \<times> QPixmap) list"
  log_lines :: "(log_level \<times> string) list"
  next_sam_id :: nat

definition ai_state_init :: ai_state where
  "ai_state_init =
     \<lparr>model_cache = [], embedding_cache = [], encode_image_calls = [], log_lines = [],
      next_sam_id = 0\<rparr>"

text \<open>
  \<^verbatim>\<open>functools.lru_cache(maxsize=n)\<close>: a call whose key is in the store returns the stored
  value and makes the entry the most recent one; otherwise the function runs, its result
  is stored as the most recent entry, and the least recently used entry is dropped when
  the store would exceed \<open>n\<close> entries.
\<close>

fun lru_find :: "('k \<Rightarrow> 'k \<Rightarrow> bool) \<Rightarrow> ('k \<times> 'v) list \<Rightarrow> 'k \<Rightarrow> ('v \<times> ('k \<times> 'v) list) option" where
  "lru_find key_eq [] k = None"
| "lru_find key_eq ((k', v) # rest) k =
     (if key_eq k' k then Some (v, (k', v) # rest)
      else case lru_find key_eq rest k of
             None \<Rightarrow> None
           | Some (v', cache') \<Rightarrow> Some (v', hd cache' # (k', v) # tl cache'))"

definition lru_store :: "nat \<Rightarrow> ('k \<times> 'v) list \<Rightarrow> 'k \<Rightarrow> 'v \<Rightarrow> ('k \<times> 'v) list" where
  "lru_store maxsize cache k v = take maxsize ((k, v) # cache)"

definition get_ai_model :: "oracles \<Rightarrow> ai_state \<Rightarrow> string \<Rightarrow> py_error + (ai_state \<times> sam_model)" where
  "get_ai_model orc st model_name =
     (case lru_find (=) (model_cache st) model_name of
        Some (m, cache') \<Rightarrow> Inr (st\<lparr>model_cache := cache'\<rparr>, m)
      | None \<Rightarrow>
          (case get_model_type_by_name orc model_name of
             Inl e \<Rightarrow> Inl e
           | Inr nm \<Rightarrow>
               let m = \<lparr>sam_id = next_sam_id st, sam_name = nm\<rparr>
               in Inr (st\<lparr>next_sam_id := Suc (next_sam_id st),
                          model_cache := lru_store 1 (model_cache st) model_name m\<rparr>, m)))"

text \<open>
  \<^verbatim>\<open>_QPixmapForLruCache\<close>: the hash is that of the bytes of the image (of \<^verbatim>\<open>None\<close> when
  the image has no bits), and two wrapped pixmaps are equal when their hashes are.
\<close>

definition QPixmapForLruCache_hash :: "oracles \<Rightarrow> QPixmap \<Rightarrow> int" where
  "QPixmapForLruCache_hash orc p =
     (case pm_bits p of None \<Rightarrow> py_hash_None orc | Some bs \<Rightarrow> py_hash_bytes orc bs)"

definition QPixmapForLruCache_eq :: "oracles \<Rightarrow> QPixmap \<Rightarrow> QPixmap \<Rightarrow> bool" where
  "QPixmapForLruCache_eq orc p q = (QPixmapForLruCache_hash orc p = QPixmapForLruCache_hash orc q)"

text \<open>
  Equality of two keys of the embedding cache: the same model object and equal wrapped
  pixmaps.
\<close>

definition embedding_key_eq :: "oracles \<Rightarrow> sam_model \<times> QPixmap \<Rightarrow> sam_model \<times> QPixmap \<Rightarrow> bool" where
  "embedding_key_eq orc k k' =
     (sam_id (fst k) = sam_id (fst k') \<and> QPixmapForLruCache_eq orc (snd k) (snd k'))"

text \<open>\<^verbatim>\<open>_compute_image_embedding\<close> with the cached \<^verbatim>\<open>__compute_image_embedding\<close>.\<close>

definition compute_image_embedding ::
  "oracles \<Rightarrow> ai_state \<Rightarrow> sam_model \<Rightarrow> QPixmap \<Rightarrow> ai_state \<times> embedding" where
  "compute_image_embedding orc st sam pm =
     (case lru_find (embedding_key_eq orc) (embedding_cache st) (sam, pm) of
        Some (v, cache') \<Rightarrow> (st\<lparr>embedding_cache := cache'\<rparr>, v)
      | None \<Rightarrow>
          let st1 = st\<lparr>log_lines := log_lines st @
                         [(DEBUG, ''Computing image embeddings for model {!r}'')],
                       encode_image_calls := encode_image_calls st @ [(sam, pm)]\<rparr>;
              v = encode_image orc sam pm
          in (st1\<lparr>embedding_cache := lru_store 3 (embedding_cache st1) (sam, pm) v\<rparr>, v))"

text \<open>Python's \<^verbatim>\<open>xs[a:b]\<close>, and the crop \<^verbatim>\<open>mask[y1 : y2 + 1, x1 : x2 + 1]\<close>.\<close>

definition py_slice :: "'a list \<Rightarrow> int \<Rightarrow> int \<Rightarrow> 'a list" where
  "py_slice xs a b =
     (let n = int (length xs);
          start = (if a < 0 then max (n + a) 0 else min a n);
          stop = (if b < 0 then max (n + b) 0 else min b n)
      in take (nat (stop - start)) (drop (nat start) xs))"

definition crop_mask :: "bool list list \<Rightarrow> int \<Rightarrow> int \<Rightarrow> int \<Rightarrow> int \<Rightarrow> bool list list" where
  "crop_mask m y1 y2 x1 x2 = map (\<lambda>row. py_slice row x1 (x2 + 1)) (py_slice m y1 (y2 + 1))"

text \<open>
  \<^verbatim>\<open>_update_shape_with_sam\<close> changes its argument \<^verbatim>\<open>shape\<close> in place and returns nothing;
  the model returns the fields of that object after the call.
\<close>

definition update_shape_with_sam ::
  "oracles \<Rightarrow> ai_state \<Rightarrow> sam_model \<Rightarrow> QPixmap \<Rightarrow> Shape \<Rightarrow> string \<Rightarrow> py_error + (ai_state \<times> Shape)" where
  "update_shape_with_sam orc st sam pm shape cm =
     (if cm \<notin> {''ai_polygon'', ''ai_mask''} then Inl ValueError
      else
        case compute_image_embedding orc st sam pm of
          (st1, image_embedding) \<Rightarrow>
            let annotations =
                  generate orc (sam_name sam) image_embedding (points shape) (point_labels shape)
            in if annotations = []
               then Inr (st1\<lparr>log_lines := log_lines st1 @
                               [(WARNING, ''No annotations returned by model {!r}'')]\<rparr>, shape)
               else if cm = ''ai_mask''
               then (case (case ann_bounding_box (hd annotations) of
                             None \<Rightarrow> mask_to_bbox orc (ann_mask (hd annotations))
                           | Some bb \<Rightarrow> (ymin bb, xmin bb, ymax bb, xmax bb)) of
                       (y1, x1, y2, x2) \<Rightarrow>
                         Inr (st1, Shape_setShapeRefined shape ''mask''
                                [(real_of_int x1, real_of_int y1), (real_of_int x2, real_of_int y2)]
                                [1, 1]
                                (Some (crop_mask (ann_mask (hd annotations)) y1 y2 x1 x2))))
               else
                 let pts = compute_polygon_from_mask orc (ann_mask (hd annotations))
                 in if length pts < 2 then Inr (st1, shape)
                    else Inr (st1, Shape_setShapeRefined shape ''polygon''
                                (map (\<lambda>point. (fst point, snd point)) pts)
                                (replicate (length pts) 1) None))"

section \<open>Finishing a shape and the keyboard\<close>

definition setHiding :: "canvas \<Rightarrow> bool \<Rightarrow> canvas" where
  "setHiding c enable = c\<lparr>hideBackround_eff := (if enable then hideBackround c else False)\<rparr>"

definition canCloseShape :: "canvas \<Rightarrow> bool" where
  "canCloseShape c =
     (drawing c \<and>
      ((truthy c (current c) \<and> length (points (heap c (the (current c)))) > 2)
       \<or> createMode c \<in> {''ai_polygon'', ''ai_mask''}))"

definition finalise :: "oracles \<Rightarrow> ai_state \<Rightarrow> canvas \<Rightarrow> py_error + (ai_state \<times> canvas)" where
  "finalise orc st c =
     (case current c of
        None \<Rightarrow> Inl AssertionError
      | Some cur \<Rightarrow>
          if \<not> truthy c (Some cur) then Inl AssertionError
          else
            (case (if createMode c \<in> {''ai_polygon'', ''ai_mask''}
                   then (case get_ai_model orc st (ai_model_name c) of
                           Inl e \<Rightarrow> Inl e
                         | Inr (st1, sam) \<Rightarrow>
                             (case update_shape_with_sam orc st1 sam (pixmap c) (heap c cur)
                                     (createMode c) of
                                Inl e \<Rightarrow> Inl e
                              | Inr (st2, s') \<Rightarrow> Inr (st2, c\<lparr>heap := (heap c)(cur := s')\<rparr>)))
                   else Inr (st, c)) of
               Inl e \<Rightarrow> Inl e
             | Inr (st', c1) \<Rightarrow>
                 (let c2 = c1\<lparr>heap := (heap c1)(cur := Shape_close (heap c1 cur))\<rparr>;
                      c3 = c2\<lparr>shapes := shapes c2 @ [cur]\<rparr>;
                      c4 = storeShapes c3;
                      c5 = c4\<lparr>current := None\<rparr>
                  in Inr (st', setHiding c5 False))))"

datatype qt_key = Key_Escape | Key_Return | Key_Up | Key_Down | Key_Left | Key_Right
  | Key_other nat

datatype kbd_modifier = ShiftModifier | ControlModifier | AltModifier | MetaModifier

record QKeyEvent =
  ev_key :: qt_key
  ev_modifiers :: "kbd_modifier set"

definition MOVE_SPEED :: real where
  "MOVE_SPEED = 5"

definition keyPressEvent ::
  "oracles \<Rightarrow> ai_state \<Rightarrow> canvas \<Rightarrow> QKeyEvent \<Rightarrow> py_error + (ai_state \<times> canvas)" where
  "keyPressEvent orc st c ev =
     (if drawing c then
        (if ev_key ev = Key_Escape \<and> truthy c (current c) then Inr (st, c\<lparr>current := None\<rparr>)
         else if ev_key ev = Key_Return \<and> canCloseShape c then finalise orc st c
         else if ev_modifiers ev = {AltModifier} then Inr (st, c\<lparr>snapping := False\<rparr>)
         else Inr (st, c))
      else if editing c then
        (if ev_key ev = Key_Up then Inr (st, moveByKeyboard c (0, - MOVE_SPEED))
         else if ev_key ev = Key_Down then Inr (st, moveByKeyboard c (0, MOVE_SPEED))
         else if ev_key ev = Key_Left then Inr (st, moveByKeyboard c (- MOVE_SPEED, 0))
         else if ev_key ev = Key_Right then Inr (st, moveByKeyboard c (MOVE_SPEED, 0))
         else Inr (st, c))
      else Inr (st, c))"

section \<open>An example state\<close>

text \<open>
  An image of 10 by 10 pixels with one selected rectangle from (2, 2) to (4, 4), and the
  state after a press of the left button at (3, 3) on it: \<^verbatim>\<open>mousePressEvent\<close> calls
  \<^verbatim>\<open>calculateOffsets\<close> with the position of the pointer and then stores that position
  in \<^verbatim>\<open>prevPoint\<close>.
\<close>

definition selection_example :: canvas where
  "selection_example =
     (Canvas_new 10 (Some ''close'') 10)
       \<lparr>shapes := [1], selectedShapes := [1],
        pixmap := \<lparr>pm_id = 0, pm_width = 10, pm_height = 10, pm_bits = None\<rparr>,
        heap := (\<lambda>_. Shape_new ''polygon'')
                  (1 := (Shape_new ''rectangle'')
                          \<lparr>points := [(2, 2), (4, 4)], point_labels := [1, 1],
                           shape_closed := True, selected := True\<rparr>),
        next_ref := 2\<rparr>"

definition pressed_example :: canvas where
  "pressed_example = (calculateOffsets selection_example (3, 3))\<lparr>prevPoint := (3, 3)\<rparr>"

section \<open>Notions used to state the hover property\<close>




text \<open>
  Collaborators for the examples: a model that answers a prompt of fewer than two points
  with no annotation and any other prompt with a mask of one pixel, and an extraction that
  yields a single vertex for a mask of one row.
\<close>

definition example_oracles :: oracles where
  "example_oracles =
     \<lparr>py_hash_bytes = (\<lambda>bs. int (length bs)),
      py_hash_None = 0,
      get_model_type_by_name = (\<lambda>n. Inr n),
      encode_image = (\<lambda>m p. sam_id m),
      generate = (\<lambda>name e pts labels.
                    if length pts < 2 then []
                    else [\<lparr>ann_mask = [[True]], ann_bounding_box = None\<rparr>]),
      mask_to_bbox = (\<lambda>m. (0, 0, 0, 0)),
      compute_polygon_from_mask = (\<lambda>m. if length m < 2 then [(0, 0)]
                                         else [(0, 0), (1, 0), (1, 1)])\<rparr>"

text \<open>A canvas in CREATE mode that is building a polygon with the given vertices.\<close>

definition drawing_example :: "QPointF list \<Rightarrow> canvas" where
  "drawing_example ps =
     (Canvas_new 10 (Some ''close'') 10)
       \<lparr>mode := CREATE, current := Some 2,
        pixmap := \<lparr>pm_id = 0, pm_width = 10, pm_height = 10, pm_bits = None\<rparr>,
        heap := (\<lambda>_. Shape_new ''polygon'')
                  (2 := (Shape_new ''polygon'')
                          \<lparr>points := ps, point_labels := replicate (length ps) 1\<rparr>),
        next_ref := 3\<rparr>"

text \<open>
  A model object, pixmap objects with the same bytes, a pixmap with other bytes, a
  prompt shape with the given prompt points, and the module state after one embedding of
  the first pixmap.
\<close>

definition example_sam :: sam_model where
  "example_sam = \<lparr>sam_id = 0, sam_name = ''sam2:latest''\<rparr>"

definition example_pixmap :: "nat \<Rightarrow> QPixmap" where
  "example_pixmap i =
     \<lparr>pm_id = i, pm_width = 2, pm_height = 1, pm_bits = Some [0, 255, 0, 255, 7, 7, 7, 255]\<rparr>"


definition prompt_example :: "QPointF list \<Rightarrow> Shape" where
  "prompt_example ps =
     (Shape_new ''points'')\<lparr>points := ps, point_labels := replicate (length ps) 1\<rparr>"

definition warm_state :: ai_state where
  "warm_state = fst (compute_image_embedding example_oracles ai_state_init example_sam
                       (example_pixmap 2))"

section \<open>An example of a narrow image\<close>

text \<open>An image of one pixel by ten pixels.\<close>

definition narrow_example :: canvas where
  "narrow_example =
     (Canvas_new 10 (Some ''close'') 10)
       \<lparr>pixmap := \<lparr>pm_id = 0, pm_width = 1, pm_height = 10, pm_bits = None\<rparr>\<rparr>"

section \<open>Properties of the edit history\<close>

lemma copy_shapes_frame:
  "copy_shapes c xs acc = (c1, bk) \<Longrightarrow>
     shapesBackups c1 = shapesBackups c \<and> num_backups c1 = num_backups c \<and>
     shapes c1 = shapes c \<and> length bk = length acc + length xs"
proof (induction xs arbitrary: c acc)
  case Nil
  then show ?case by simp
next
  case (Cons x xs)
  then show ?case by (fastforce simp: Shape_copy_def)
qed

lemma storeShapes_shapes [simp]: "shapes (storeShapes c) = shapes c"
  by (auto simp: storeShapes_def Let_def split: prod.splits dest: copy_shapes_frame)

lemma storeShapes_num_backups [simp]: "num_backups (storeShapes c) = num_backups c"
  by (auto simp: storeShapes_def Let_def split: prod.splits dest: copy_shapes_frame)

lemma storeShapes_history:
  "\<exists>bk. length bk = length (shapes c) \<and>
     shapesBackups (storeShapes c) =
       (if int (length (shapesBackups c)) > num_backups c
        then py_slice_from (shapesBackups c) (- num_backups c - 1)
        else shapesBackups c) @ [bk]"
  by (auto simp: storeShapes_def Let_def split: prod.splits dest: copy_shapes_frame)

lemma storeShapes_length:
  "0 \<le> num_backups c \<Longrightarrow>
   length (shapesBackups (storeShapes c)) =
     (if int (length (shapesBackups c)) > num_backups c then nat (num_backups c) + 2
      else length (shapesBackups c) + 1)"
  using storeShapes_history [of c] by (auto simp: py_slice_from_def Let_def)

lemma funpow_num_backups [simp]: "num_backups ((storeShapes ^^ n) c) = num_backups c"
  by (induction n) auto

lemma storeShapes_keeps_all_at_eleven:
  "num_backups c = 10 \<Longrightarrow> length (shapesBackups c) = 11 \<Longrightarrow>
   \<exists>bk. shapesBackups (storeShapes c) = shapesBackups c @ [bk]"
  using storeShapes_history [of c] by (auto simp: py_slice_from_def Let_def)

text \<open>
  Claim C1.  The claim says that twelve consecutive pushes with \<^verbatim>\<open>num_backups = 10\<close>,
  starting from an empty history, leave the eleven most recent snapshots, and that at
  most \<^verbatim>\<open>num_backups + 1\<close> entries are ever retained.  In the code the trim runs before
  the append and keeps \<^verbatim>\<open>num_backups + 1\<close> entries, so the history holds twelve
  entries after the twelfth push: the push on a history of eleven entries evicts nothing,
  and the history before it is still there in full.
\<close>

theorem storeShapes_twelve_pushes:
  "length (shapesBackups ((storeShapes ^^ 11) (Canvas_new 10 (Some ''close'') 10))) = 11 \<and>
   length (shapesBackups ((storeShapes ^^ 12) (Canvas_new 10 (Some ''close'') 10))) = 12 \<and>
   butlast (shapesBackups ((storeShapes ^^ 12) (Canvas_new 10 (Some ''close'') 10))) =
     shapesBackups ((storeShapes ^^ 11) (Canvas_new 10 (Some ''close'') 10))"
proof -
  let ?c = "Canvas_new 10 (Some ''close'') 10"
  have nb: "num_backups ?c = 10" and h0: "shapesBackups ?c = []"
    by (simp_all add: Canvas_new_def)
  have step: "n \<le> 11 \<Longrightarrow> length (shapesBackups ((storeShapes ^^ n) ?c)) = n" for n
  proof (induction n)
    case 0
    then show ?case by (simp add: h0)
  next
    case (Suc n)
    then have "length (shapesBackups ((storeShapes ^^ n) ?c)) = n" by simp
    moreover have "0 \<le> num_backups ((storeShapes ^^ n) ?c)" by (simp add: nb)
    ultimately show ?case using Suc.prems
      by (simp add: storeShapes_length nb)
  qed
  have e: "length (shapesBackups ((storeShapes ^^ 11) ?c)) = 11" using step [of 11] by simp
  have t: "(storeShapes ^^ 12) ?c = storeShapes ((storeShapes ^^ 11) ?c)"
    by (simp add: eval_nat_numeral)
  have n: "num_backups ((storeShapes ^^ 11) ?c) = 10" by (simp add: nb)
  from storeShapes_keeps_all_at_eleven [OF n e] obtain bk where
    "shapesBackups (storeShapes ((storeShapes ^^ 11) ?c)) =
       shapesBackups ((storeShapes ^^ 11) ?c) @ [bk]" by blast
  with e show ?thesis unfolding t by simp
qed

lemma deselect_each_fields:
  "shapes (deselect_each c xs) = shapes c \<and>
   shapesBackups (deselect_each c xs) = shapesBackups c \<and>
   selectedShapes (deselect_each c xs) = selectedShapes c"
  by (induction xs arbitrary: c) auto

lemma deselect_each_heap:
  "heap (deselect_each c xs) r =
     (if r \<in> set xs then (heap c r)\<lparr>selected := False\<rparr> else heap c r)"
  by (induction xs arbitrary: c) auto

lemma restoreShape_restorable:
  assumes "2 \<le> length (shapesBackups c)"
  shows "restoreShape c =
           Inr (deselect_each
                  (c\<lparr>shapesBackups := butlast (butlast (shapesBackups c)),
                     shapes := last (butlast (shapesBackups c)), selectedShapes := []\<rparr>)
                  (last (butlast (shapesBackups c))))"
proof -
  from assms have ne: "shapesBackups c \<noteq> []" "butlast (shapesBackups c) \<noteq> []"
    by (auto simp: butlast_conv_take)
  from assms have "isShapeRestorable c" by (simp add: isShapeRestorable_def)
  then show ?thesis using ne by (simp add: restoreShape_def py_pop_def)
qed

text \<open>
  Claim C2.  With fewer than two entries in the history, \<^verbatim>\<open>restoreShape\<close> returns and
  changes nothing.  With at least two entries it removes the latest entry, then removes
  the entry below it and installs that list of shapes as \<^verbatim>\<open>self.shapes\<close>; the objects
  of the store are as before, but for the selected flag of the installed shapes.
\<close>

theorem restoreShape_undo:
  "(length (shapesBackups c) < 2 \<longrightarrow> restoreShape c = Inr c) \<and>
   (2 \<le> length (shapesBackups c) \<longrightarrow>
      (\<exists>c'. restoreShape c = Inr c' \<and>
            shapesBackups c' = butlast (butlast (shapesBackups c)) \<and>
            shapes c' = last (butlast (shapesBackups c)) \<and>
            (\<forall>r. heap c' r =
                   (if r \<in> set (shapes c') then (heap c r)\<lparr>selected := False\<rparr>
                    else heap c r))))"
proof (intro conjI impI)
  assume "length (shapesBackups c) < 2"
  then show "restoreShape c = Inr c"
    by (simp add: restoreShape_def isShapeRestorable_def)
next
  assume "2 \<le> length (shapesBackups c)"
  then show "\<exists>c'. restoreShape c = Inr c' \<and>
            shapesBackups c' = butlast (butlast (shapesBackups c)) \<and>
            shapes c' = last (butlast (shapesBackups c)) \<and>
            (\<forall>r. heap c' r =
                   (if r \<in> set (shapes c') then (heap c r)\<lparr>selected := False\<rparr>
                    else heap c r))"
    by (simp add: restoreShape_restorable deselect_each_fields deselect_each_heap)
qed

theorem restoreShape_undo_witness:
  "restoreShape (Canvas_new 10 (Some ''close'') 10) = Inr (Canvas_new 10 (Some ''close'') 10) \<and>
   (\<exists>c'. restoreShape ((Canvas_new 10 (Some ''close'') 10)\<lparr>shapesBackups := [[], [1], [2]]\<rparr>)
            = Inr c' \<and>
          shapesBackups c' = [[]] \<and> shapes c' = [1])"
  using restoreShape_undo [of "Canvas_new 10 (Some ''close'') 10"]
        restoreShape_undo [of "(Canvas_new 10 (Some ''close'') 10)\<lparr>shapesBackups := [[], [1], [2]]\<rparr>"]
  by (auto simp: Canvas_new_def)

text \<open>
  Claim C10.  After an undo on a history of at least two entries the selection is empty:
  \<^verbatim>\<open>selectedShapes\<close> is the empty list, and no shape of the restored shape set has its
  selected flag set.
\<close>

theorem restoreShape_clears_selection:
  "2 \<le> length (shapesBackups c) \<Longrightarrow>
   \<exists>c'. restoreShape c = Inr c' \<and> selectedShapes c' = [] \<and>
        (\<forall>r \<in> set (shapes c'). \<not> selected (heap c' r))"
  by (simp add: restoreShape_restorable deselect_each_fields deselect_each_heap)

theorem restoreShape_clears_selection_witness:
  "\<exists>c'. restoreShape ((Canvas_new 10 (Some ''close'') 10)
            \<lparr>shapesBackups := [[], [1], [2]], selectedShapes := [1],
              heap := (\<lambda>_. (Shape_new ''polygon'')\<lparr>selected := True\<rparr>)\<rparr>) = Inr c' \<and>
        selectedShapes c' = [] \<and> shapes c' = [1] \<and> \<not> selected (heap c' 1)"
  using restoreShape_clears_selection [of "(Canvas_new 10 (Some ''close'') 10)
            \<lparr>shapesBackups := [[], [1], [2]], selectedShapes := [1],
              heap := (\<lambda>_. (Shape_new ''polygon'')\<lparr>selected := True\<rparr>)\<rparr>"]
        restoreShape_restorable [of "(Canvas_new 10 (Some ''close'') 10)
            \<lparr>shapesBackups := [[], [1], [2]], selectedShapes := [1],
              heap := (\<lambda>_. (Shape_new ''polygon'')\<lparr>selected := True\<rparr>)\<rparr>"]
  by (auto simp: Canvas_new_def deselect_each_fields)

section \<open>Properties of moving a selection\<close>

lemma first_clamp_unguarded:
  "(if outOfPixmap c o1 then QPointF_sub pos (min 0 (fst o1), min 0 (snd o1)) else pos) =
     QPointF_sub pos (min 0 (fst o1), min 0 (snd o1))"
  by (auto simp: outOfPixmap_def QPointF_sub_def Let_def prod_eq_iff)

lemma second_clamp_unguarded:
  "(if outOfPixmap c o2
    then QPointF_add pos1 (min 0 (real_of_int (pm_width (pixmap c)) - fst o2),
                           min 0 (real_of_int (pm_height (pixmap c)) - snd o2))
    else pos1) =
   QPointF_add pos1 (min 0 (real_of_int (pm_width (pixmap c)) - fst o2),
                     min 0 (real_of_int (pm_height (pixmap c)) - snd o2))"
  by (auto simp: outOfPixmap_def QPointF_add_def Let_def prod_eq_iff)

lemma boundedMoveShapes_inside:
  assumes "\<not> outOfPixmap c pos"
  defines "dp \<equiv>
     (min (max (fst pos - fst (prevPoint c)) (- (fst (prevPoint c) + fst (fst (offsets c)))))
          (real_of_int (pm_width (pixmap c)) - (fst (prevPoint c) + fst (snd (offsets c)))),
      min (max (snd pos - snd (prevPoint c)) (- (snd (prevPoint c) + snd (fst (offsets c)))))
          (real_of_int (pm_height (pixmap c)) - (snd (prevPoint c) + snd (snd (offsets c)))))"
  shows "boundedMoveShapes c ss pos =
           (if dp \<noteq> (0, 0)
            then ((moveBy_each c ss dp)\<lparr>prevPoint := QPointF_add (prevPoint c) dp\<rparr>, True)
            else (c, False))"
proof -
  let ?o1 = "QPointF_add pos (fst (offsets c))"
  let ?pos1 = "QPointF_sub pos (min 0 (fst ?o1), min 0 (snd ?o1))"
  let ?o2 = "QPointF_add ?pos1 (snd (offsets c))"
  let ?pos2 = "QPointF_add ?pos1 (min 0 (real_of_int (pm_width (pixmap c)) - fst ?o2),
                     min 0 (real_of_int (pm_height (pixmap c)) - snd ?o2))"
  have dp: "QPointF_sub ?pos2 (prevPoint c) = dp"
    unfolding dp_def QPointF_add_def QPointF_sub_def by (auto simp: prod_eq_iff min_def max_def)
  have p2: "?pos2 = QPointF_add (prevPoint c) dp"
    unfolding dp [symmetric] by (simp add: QPointF_add_def QPointF_sub_def)
  show ?thesis
    unfolding boundedMoveShapes_def Let_def first_clamp_unguarded second_clamp_unguarded
    using assms(1) dp p2 by simp
qed


lemma moveBy_each_heap:
  "distinct ss \<Longrightarrow>
   heap (moveBy_each c ss dp) r =
     (if r \<in> set ss then Shape_moveBy (heap c r) dp else heap c r)"
  by (induction ss arbitrary: c) auto

lemma moveBy_zero: "map (\<lambda>p. QPointF_add p (0, 0)) ps = ps"
  by (simp add: QPointF_add_def)

text \<open>
  Claim C4, amended.  A requested position outside the image is rejected: the call
  returns \<^verbatim>\<open>False\<close> and nothing moves.  For a requested position inside the image the
  move is clamped and not rejected: every shape of the selection is translated by one
  delta \<open>dp\<close>, which is in each coordinate the raw delta, limited from below by the first
  correction of the source (the tracked upper left corner, the previous position plus the
  first offset, is not taken below 0) and from above by its second correction (which
  measures the tracked lower right corner against the width and the height of the image).
  The call returns \<^verbatim>\<open>True\<close> exactly when \<open>dp\<close> is not zero.  When both tracked corners
  lie inside the image, each coordinate of \<open>dp\<close> lies between zero and the raw delta, and
  it is not zero when the raw delta is not zero and the corner in the direction of the
  motion is not yet on the border of the image.
\<close>

theorem boundedMoveShapes_clamps_inside_rejects_outside:
  fixes c :: canvas and ss :: "ref list" and pos :: QPointF
  defines "d \<equiv> QPointF_sub pos (prevPoint c)"
    and "corner1 \<equiv> QPointF_add (prevPoint c) (fst (offsets c))"
    and "corner2 \<equiv> QPointF_add (prevPoint c) (snd (offsets c))"
    and "w \<equiv> real_of_int (pm_width (pixmap c))"
    and "h \<equiv> real_of_int (pm_height (pixmap c))"
  defines "dp \<equiv> (min (max (fst d) (- fst corner1)) (w - fst corner2),
                  min (max (snd d) (- snd corner1)) (h - snd corner2))"
  shows
    "(outOfPixmap c pos \<longrightarrow> boundedMoveShapes c ss pos = (c, False)) \<and>
     (\<not> outOfPixmap c pos \<longrightarrow>
        boundedMoveShapes c ss pos =
          (if dp \<noteq> (0, 0)
           then ((moveBy_each c ss dp)\<lparr>prevPoint := QPointF_add (prevPoint c) dp\<rparr>, True)
           else (c, False)) \<and>
        (distinct ss \<longrightarrow>
           (\<forall>r \<in> set ss. points (heap (fst (boundedMoveShapes c ss pos)) r) =
                           map (\<lambda>p. QPointF_add p dp) (points (heap c r))))) \<and>
     (\<not> outOfPixmap c corner1 \<and> \<not> outOfPixmap c corner2 \<longrightarrow>
        (0 \<le> fst d \<longrightarrow> 0 \<le> fst dp \<and> fst dp \<le> fst d) \<and>
        (fst d \<le> 0 \<longrightarrow> fst d \<le> fst dp \<and> fst dp \<le> 0) \<and>
        (0 \<le> snd d \<longrightarrow> 0 \<le> snd dp \<and> snd dp \<le> snd d) \<and>
        (snd d \<le> 0 \<longrightarrow> snd d \<le> snd dp \<and> snd dp \<le> 0) \<and>
        (fst d < 0 \<and> 0 < fst corner1 \<longrightarrow> fst dp < 0) \<and>
        (0 < fst d \<and> fst corner2 < w - 1 \<longrightarrow> 0 < fst dp) \<and>
        (snd d < 0 \<and> 0 < snd corner1 \<longrightarrow> snd dp < 0) \<and>
        (0 < snd d \<and> snd corner2 < h - 1 \<longrightarrow> 0 < snd dp))"
proof (intro conjI impI)
  assume "outOfPixmap c pos"
  then show "boundedMoveShapes c ss pos = (c, False)"
    by (simp add: boundedMoveShapes_def)
next
  have dp: "dp =
     (min (max (fst pos - fst (prevPoint c)) (- (fst (prevPoint c) + fst (fst (offsets c)))))
          (real_of_int (pm_width (pixmap c)) - (fst (prevPoint c) + fst (snd (offsets c)))),
      min (max (snd pos - snd (prevPoint c)) (- (snd (prevPoint c) + snd (fst (offsets c)))))
          (real_of_int (pm_height (pixmap c)) - (snd (prevPoint c) + snd (snd (offsets c)))))"
    by (simp add: dp_def d_def corner1_def corner2_def w_def h_def QPointF_add_def
          QPointF_sub_def)
  assume a: "\<not> outOfPixmap c pos"
  show eq: "boundedMoveShapes c ss pos =
              (if dp \<noteq> (0, 0)
               then ((moveBy_each c ss dp)\<lparr>prevPoint := QPointF_add (prevPoint c) dp\<rparr>, True)
               else (c, False))"
    unfolding dp by (rule boundedMoveShapes_inside [OF a])
  assume ds: "distinct ss"
  show "\<forall>r \<in> set ss. points (heap (fst (boundedMoveShapes c ss pos)) r) =
                        map (\<lambda>p. QPointF_add p dp) (points (heap c r))"
  proof (cases "dp = (0, 0)")
    case True
    then show ?thesis by (simp add: eq moveBy_zero)
  next
    case False
    then show ?thesis using ds by (simp add: eq moveBy_each_heap Shape_moveBy_def)
  qed
next
  assume a: "\<not> outOfPixmap c corner1 \<and> \<not> outOfPixmap c corner2"
  have box: "0 \<le> fst corner1" "0 \<le> snd corner1" "fst corner2 \<le> w - 1" "snd corner2 \<le> h - 1"
    using a by (simp_all add: outOfPixmap_def Let_def w_def h_def)
  have fx: "fst dp = min (max (fst d) (- fst corner1)) (w - fst corner2)"
    and fy: "snd dp = min (max (snd d) (- snd corner1)) (h - snd corner2)"
    by (simp_all add: dp_def)
  show "0 \<le> fst d \<Longrightarrow> 0 \<le> fst dp" "0 \<le> fst d \<Longrightarrow> fst dp \<le> fst d"
       "fst d \<le> 0 \<Longrightarrow> fst d \<le> fst dp" "fst d \<le> 0 \<Longrightarrow> fst dp \<le> 0"
       "fst d < 0 \<and> 0 < fst corner1 \<Longrightarrow> fst dp < 0"
       "0 < fst d \<and> fst corner2 < w - 1 \<Longrightarrow> 0 < fst dp"
    using box(1,3) unfolding fx by (auto simp: min_def max_def)
  show "0 \<le> snd d \<Longrightarrow> 0 \<le> snd dp" "0 \<le> snd d \<Longrightarrow> snd dp \<le> snd d"
       "snd d \<le> 0 \<Longrightarrow> snd d \<le> snd dp" "snd d \<le> 0 \<Longrightarrow> snd dp \<le> 0"
       "snd d < 0 \<and> 0 < snd corner1 \<Longrightarrow> snd dp < 0"
       "0 < snd d \<and> snd corner2 < h - 1 \<Longrightarrow> 0 < snd dp"
    using box(2,4) unfolding fy by (auto simp: min_def max_def)
qed

lemma pressed_example_fields:
  "offsets pressed_example = ((-1, -1), (1, 1))"
  "prevPoint pressed_example = (3, 3)"
  "pixmap pressed_example = \<lparr>pm_id = 0, pm_width = 10, pm_height = 10, pm_bits = None\<rparr>"
  "points (heap pressed_example 1) = [(2, 2), (4, 4)]"
  by (simp_all add: pressed_example_def selection_example_def calculateOffsets_def
        Canvas_new_def Shape_boundingRect_def Shape_new_def py_int_def)

lemma pressed_example_inside:
  "\<not> outOfPixmap pressed_example (9, 3)" "\<not> outOfPixmap pressed_example (0, 3)"
  "outOfPixmap pressed_example (12, 3)"
  by (simp_all add: outOfPixmap_def pressed_example_fields)

lemma pressed_example_points:
  "points (heap pressed_example (Suc 0)) = [(2, 2), (4, 4)]"
  using pressed_example_fields(4) by simp

lemma pressed_example_move_right:
  "boundedMoveShapes pressed_example [1] (9, 3) =
     ((moveBy_each pressed_example [1] (6, 0))\<lparr>prevPoint := (9, 3)\<rparr>, True)"
  using boundedMoveShapes_inside [OF pressed_example_inside(1), of "[1]"]
  by (simp add: pressed_example_fields QPointF_add_def)

text \<open>
  Claim C3.  The claim says that the translated bounding box of a selection that starts
  inside the image stays within [0, width - 1] x [0, height - 1].  The second clamp of
  \<^verbatim>\<open>boundedMoveShapes\<close> is guarded by \<^verbatim>\<open>outOfPixmap\<close> (bound width - 1) but corrects
  with \<^verbatim>\<open>self.pixmap.width() - o2.x()\<close> (bound width), so the lower right corner can
  come to rest one pixel outside: in the example state, a move to (9, 3) puts the
  rectangle at (8, 2) - (10, 4) in an image whose last column is 9.
\<close>

theorem boundedMoveShapes_right_corner_leaves_image:
  "Shape_boundingRect (heap pressed_example 1) = (2, 2, 4, 4) \<and>
   \<not> outOfPixmap pressed_example (2, 2) \<and> \<not> outOfPixmap pressed_example (4, 4) \<and>
   snd (boundedMoveShapes pressed_example [1] (9, 3)) = True \<and>
   Shape_boundingRect (heap (fst (boundedMoveShapes pressed_example [1] (9, 3))) 1)
     = (8, 2, 10, 4) \<and>
   outOfPixmap (fst (boundedMoveShapes pressed_example [1] (9, 3))) (10, 4)"
proof -
  have pm: "pixmap (moveBy_each pressed_example [1] (6, 0)) = pixmap pressed_example"
    by simp
  have pts: "points (heap (moveBy_each pressed_example [1] (6, 0)) 1) = [(8, 2), (10, 4)]"
    by (simp add: Shape_moveBy_def QPointF_add_def pressed_example_points)
  show ?thesis
    unfolding pressed_example_move_right
    using pts
    by (simp add: outOfPixmap_def Shape_boundingRect_def pm pressed_example_fields
          pressed_example_points)
qed

text \<open>
  Claim C4, as stated, fails: a requested position outside the image is rejected outright.
  In the example state the pointer moves to (12, 3); the raw translation would take the
  rectangle out of the image, a translation by (5, 0) would keep it inside, and
  \<^verbatim>\<open>boundedMoveShapes\<close> returns \<^verbatim>\<open>False\<close> with the state unchanged.
\<close>

theorem boundedMoveShapes_rejects_outside_target:
  "\<not> outOfPixmap pressed_example (2, 2) \<and> \<not> outOfPixmap pressed_example (4, 4) \<and>
   outOfPixmap pressed_example
     (QPointF_add (4, 4) (QPointF_sub (12, 3) (prevPoint pressed_example))) \<and>
   \<not> outOfPixmap pressed_example (QPointF_add (2, 2) (5, 0)) \<and>
   \<not> outOfPixmap pressed_example (QPointF_add (4, 4) (5, 0)) \<and>
   boundedMoveShapes pressed_example [1] (12, 3) = (pressed_example, False)"
proof -
  have "boundedMoveShapes pressed_example [1] (12, 3) = (pressed_example, False)"
    using pressed_example_inside(3) by (simp add: boundedMoveShapes_def)
  then show ?thesis
    by (simp add: outOfPixmap_def pressed_example_fields QPointF_add_def QPointF_sub_def)
qed


theorem boundedMoveShapes_clamps_inside_rejects_outside_witness:
  "boundedMoveShapes pressed_example [1] (12, 3) = (pressed_example, False) \<and>
   boundedMoveShapes pressed_example [1] (0, 3) =
     ((moveBy_each pressed_example [1] (- 2, 0))\<lparr>prevPoint := (1, 3)\<rparr>, True) \<and>
   points (heap (fst (boundedMoveShapes pressed_example [1] (0, 3))) 1) = [(0, 2), (2, 4)] \<and>
   \<not> outOfPixmap pressed_example
        (QPointF_add (prevPoint pressed_example) (fst (offsets pressed_example))) \<and>
   \<not> outOfPixmap pressed_example
        (QPointF_add (prevPoint pressed_example) (snd (offsets pressed_example))) \<and>
   min (max (fst (QPointF_sub (0, 3) (prevPoint pressed_example)))
          (- fst (QPointF_add (prevPoint pressed_example) (fst (offsets pressed_example)))))
       (real_of_int (pm_width (pixmap pressed_example))
          - fst (QPointF_add (prevPoint pressed_example) (snd (offsets pressed_example)))) < 0"
proof -
  have ins: "\<not> outOfPixmap pressed_example
                (QPointF_add (prevPoint pressed_example) (fst (offsets pressed_example))) \<and>
             \<not> outOfPixmap pressed_example
                (QPointF_add (prevPoint pressed_example) (snd (offsets pressed_example)))"
    by (simp add: outOfPixmap_def pressed_example_fields QPointF_add_def)
  have room: "fst (QPointF_sub (0, 3) (prevPoint pressed_example)) < 0 \<and>
              0 < fst (QPointF_add (prevPoint pressed_example) (fst (offsets pressed_example)))"
    by (simp add: pressed_example_fields QPointF_add_def QPointF_sub_def)
  note R = boundedMoveShapes_clamps_inside_rejects_outside
          [where c = pressed_example and pos = "(0, 3)" and ss = "[1]",
           THEN conjunct2, THEN conjunct2, THEN mp, OF ins]
  have 4: "min (max (fst (QPointF_sub (0, 3) (prevPoint pressed_example)))
          (- fst (QPointF_add (prevPoint pressed_example) (fst (offsets pressed_example)))))
       (real_of_int (pm_width (pixmap pressed_example))
          - fst (QPointF_add (prevPoint pressed_example) (snd (offsets pressed_example)))) < 0"
    using R [THEN conjunct2, THEN conjunct2, THEN conjunct2, THEN conjunct2, THEN conjunct1,
             THEN mp, OF room]
    unfolding fst_conv .
  have 1: "boundedMoveShapes pressed_example [1] (12, 3) = (pressed_example, False)"
    by (rule boundedMoveShapes_clamps_inside_rejects_outside
          [where c = pressed_example and pos = "(12, 3)" and ss = "[1]",
           THEN conjunct1, THEN mp, OF pressed_example_inside(3)])
  note T = boundedMoveShapes_clamps_inside_rejects_outside
          [where c = pressed_example and pos = "(0, 3)" and ss = "[1]",
           THEN conjunct2, THEN conjunct1, THEN mp, OF pressed_example_inside(2)]
  have dp: "(min (max (fst (QPointF_sub (0, 3) (prevPoint pressed_example)))
                   (- fst (QPointF_add (prevPoint pressed_example) (fst (offsets pressed_example)))))
              (real_of_int (pm_width (pixmap pressed_example))
                 - fst (QPointF_add (prevPoint pressed_example) (snd (offsets pressed_example)))),
             min (max (snd (QPointF_sub (0, 3) (prevPoint pressed_example)))
                   (- snd (QPointF_add (prevPoint pressed_example) (fst (offsets pressed_example)))))
              (real_of_int (pm_height (pixmap pressed_example))
                 - snd (QPointF_add (prevPoint pressed_example) (snd (offsets pressed_example)))))
            = (- 2, 0)"
    by (simp add: pressed_example_fields QPointF_add_def QPointF_sub_def)
  have nz: "((- 2, 0) :: QPointF) \<noteq> (0, 0)" by simp
  have pp: "QPointF_add (prevPoint pressed_example) (- 2, 0) = (1, 3)"
    by (simp add: pressed_example_fields QPointF_add_def)
  note T' = T [unfolded dp if_P [OF nz] pp]
  from T' have 2: "boundedMoveShapes pressed_example [1] (0, 3) =
     ((moveBy_each pressed_example [1] (- 2, 0))\<lparr>prevPoint := (1, 3)\<rparr>, True)"
    by (rule conjunct1)
  from T' [THEN conjunct2]
  have "points (heap (fst (boundedMoveShapes pressed_example [1] (0, 3))) 1) =
      map (\<lambda>p. QPointF_add p (- 2, 0)) (points (heap pressed_example 1))"
    by simp
  then have 3: "points (heap (fst (boundedMoveShapes pressed_example [1] (0, 3))) 1) =
      [(0, 2), (2, 4)]"
    by (simp add: pressed_example_points QPointF_add_def)
  from 1 2 3 conjunct1 [OF ins] conjunct2 [OF ins] 4 show ?thesis by (intro conjI)
qed

section \<open>Properties of hover highlighting\<close>










section \<open>Properties of the keyboard handler\<close>

lemma copy_shapes_only_store:
  "copy_shapes c xs acc = (c1, bk) \<Longrightarrow>
     c1 = c\<lparr>heap := heap c1, next_ref := next_ref c1\<rparr>"
proof (induction xs arbitrary: c acc)
  case Nil
  then show ?case by simp
next
  case (Cons x xs)
  from Cons.prems have
    "copy_shapes (c\<lparr>heap := (heap c)(next_ref c := heap c x), next_ref := Suc (next_ref c)\<rparr>)
       xs (acc @ [next_ref c]) = (c1, bk)"
    by (simp add: Shape_copy_def)
  from Cons.IH [OF this] show ?case by simp
qed

lemma storeShapes_only_store_and_history:
  "storeShapes c =
     c\<lparr>heap := heap (storeShapes c), next_ref := next_ref (storeShapes c),
       shapesBackups := shapesBackups (storeShapes c)\<rparr>"
proof -
  obtain c1 bk where cs: "copy_shapes c (shapes c) [] = (c1, bk)" by fastforce
  from copy_shapes_only_store [OF cs] have c1: "c1 = c\<lparr>heap := heap c1, next_ref := next_ref c1\<rparr>" .
  show ?thesis
    unfolding storeShapes_def cs
    by (subst (1 2 3 4) c1) (simp add: Let_def)
qed

lemma storeShapes_current [simp]: "current (storeShapes c) = current c"
  by (subst storeShapes_only_store_and_history) simp

lemma storeShapes_mode [simp]: "mode (storeShapes c) = mode c"
  by (subst storeShapes_only_store_and_history) simp

lemma finalise_polygon:
  assumes "createMode c = ''polygon''" "current c = Some r" "points (heap c r) \<noteq> []"
  shows "\<exists>c'. finalise orc st c = Inr (st, c') \<and> shapes c' = shapes c @ [r] \<and>
              current c' = None \<and> mode c' = mode c"
  using assms by (simp add: finalise_def truthy_def Let_def setHiding_def)

text \<open>
  Claim C6, amended.  In CREATE mode with \<^verbatim>\<open>createMode\<close> polygon, the Enter key
  finalises the shape exactly when the shape in progress has more than two vertices.  With
  no shape in progress or at most two vertices the key does not finalise: the canvas stays
  in CREATE mode with the same shape in progress, and nothing changes at all unless Alt is
  the modifier held; with Alt the handler falls through to its next branch, which switches
  snapping off and changes nothing else.
\<close>

theorem keyPressEvent_return_polygon:
  assumes "drawing c" and "createMode c = ''polygon''" and "ev_key ev = Key_Return"
  shows "((current c = None \<or> (\<exists>r. current c = Some r \<and> length (points (heap c r)) \<le> 2)) \<longrightarrow>
            keyPressEvent orc st c ev =
              Inr (st, if ev_modifiers ev = {AltModifier} then c\<lparr>snapping := False\<rparr> else c)) \<and>
         (\<forall>r. current c = Some r \<and> 2 < length (points (heap c r)) \<longrightarrow>
            keyPressEvent orc st c ev = finalise orc st c \<and>
            (\<exists>c'. finalise orc st c = Inr (st, c') \<and> shapes c' = shapes c @ [r] \<and>
                  current c' = None \<and> mode c' = CREATE))"
proof (intro conjI impI allI)
  assume "current c = None \<or> (\<exists>r. current c = Some r \<and> length (points (heap c r)) \<le> 2)"
  then have "\<not> canCloseShape c"
    using assms(2) by (auto simp: canCloseShape_def truthy_def)
  then show "keyPressEvent orc st c ev =
              Inr (st, if ev_modifiers ev = {AltModifier} then c\<lparr>snapping := False\<rparr> else c)"
    using assms by (simp add: keyPressEvent_def)
next
  fix r assume a: "current c = Some r \<and> 2 < length (points (heap c r))"
  then have ne: "points (heap c r) \<noteq> []" by auto
  with a assms(1) have "canCloseShape c" by (simp add: canCloseShape_def truthy_def)
  with assms show "keyPressEvent orc st c ev = finalise orc st c"
    by (simp add: keyPressEvent_def)
  from finalise_polygon [OF assms(2) conjunct1 [OF a] ne, of orc st] assms(1)
  show "\<exists>c'. finalise orc st c = Inr (st, c') \<and> shapes c' = shapes c @ [r] \<and>
                  current c' = None \<and> mode c' = CREATE"
    by (simp add: drawing_def)
qed

lemma drawing_example_fields:
  "drawing (drawing_example ps)" "createMode (drawing_example ps) = ''polygon''"
  "current (drawing_example ps) = Some 2" "points (heap (drawing_example ps) 2) = ps"
  "shapes (drawing_example ps) = []"
  by (simp_all add: drawing_example_def drawing_def Canvas_new_def)

theorem keyPressEvent_return_polygon_witness:
  "keyPressEvent example_oracles ai_state_init (drawing_example [(1, 1), (5, 1)])
     \<lparr>ev_key = Key_Return, ev_modifiers = {}\<rparr>
     = Inr (ai_state_init, drawing_example [(1, 1), (5, 1)]) \<and>
   (\<exists>c'. keyPressEvent example_oracles ai_state_init (drawing_example [(1, 1), (5, 1), (5, 5)])
            \<lparr>ev_key = Key_Return, ev_modifiers = {}\<rparr> = Inr (ai_state_init, c') \<and>
         shapes c' = [2] \<and> current c' = None) \<and>
   keyPressEvent example_oracles ai_state_init (drawing_example [(1, 1), (5, 1)])
     \<lparr>ev_key = Key_Return, ev_modifiers = {AltModifier}\<rparr>
     = Inr (ai_state_init, (drawing_example [(1, 1), (5, 1)])\<lparr>snapping := False\<rparr>)"
proof -
  let ?alt = "\<lparr>ev_key = Key_Return, ev_modifiers = {AltModifier}\<rparr>"
  have ka: "ev_key ?alt = Key_Return" by simp
  note alt = keyPressEvent_return_polygon
    [OF drawing_example_fields(1) drawing_example_fields(2) ka,
     of "[(1, 1), (5, 1)]" example_oracles ai_state_init]
  from alt have 3: "keyPressEvent example_oracles ai_state_init (drawing_example [(1, 1), (5, 1)])
     ?alt = Inr (ai_state_init, (drawing_example [(1, 1), (5, 1)])\<lparr>snapping := False\<rparr>)"
    by (simp add: drawing_example_fields)
  let ?ev = "\<lparr>ev_key = Key_Return, ev_modifiers = {}\<rparr>"
  have k: "ev_key ?ev = Key_Return" by simp
  note two = keyPressEvent_return_polygon
    [OF drawing_example_fields(1) drawing_example_fields(2) k,
     of "[(1, 1), (5, 1)]" example_oracles ai_state_init]
  note three = keyPressEvent_return_polygon
    [OF drawing_example_fields(1) drawing_example_fields(2) k,
     of "[(1, 1), (5, 1), (5, 5)]" example_oracles ai_state_init]
  from two have 1: "keyPressEvent example_oracles ai_state_init (drawing_example [(1, 1), (5, 1)])
     ?ev = Inr (ai_state_init, drawing_example [(1, 1), (5, 1)])"
    by (simp add: drawing_example_fields)
  from three have 2: "\<exists>c'. keyPressEvent example_oracles ai_state_init
            (drawing_example [(1, 1), (5, 1), (5, 5)]) ?ev = Inr (ai_state_init, c') \<and>
         shapes c' = [2] \<and> current c' = None"
    by (simp add: drawing_example_fields) blast
  from 1 2 3 show ?thesis by blast
qed

text \<open>
  Claim C6, as stated, fails when Alt is held: with two vertices the Enter key does not
  finalise, but the press is not a no-op, since the branch after the test for Enter runs
  and switches snapping off.
\<close>

theorem keyPressEvent_alt_return_switches_snapping_off:
  "length (points (heap (drawing_example [(1, 1), (5, 1)]) 2)) = 2 \<and>
   snapping (drawing_example [(1, 1), (5, 1)]) \<and>
   (\<exists>c'. keyPressEvent example_oracles ai_state_init (drawing_example [(1, 1), (5, 1)])
            \<lparr>ev_key = Key_Return, ev_modifiers = {AltModifier}\<rparr> = Inr (ai_state_init, c') \<and>
         \<not> snapping c' \<and> c' \<noteq> drawing_example [(1, 1), (5, 1)] \<and>
         mode c' = CREATE \<and> current c' = Some 2 \<and> shapes c' = [])"
proof -
  let ?c = "drawing_example [(1, 1), (5, 1)]"
  have s: "snapping ?c" by (simp add: drawing_example_def Canvas_new_def)
  have n: "\<not> canCloseShape ?c"
    by (simp add: canCloseShape_def truthy_def drawing_example_fields)
  have k: "keyPressEvent example_oracles ai_state_init ?c
            \<lparr>ev_key = Key_Return, ev_modifiers = {AltModifier}\<rparr>
           = Inr (ai_state_init, ?c\<lparr>snapping := False\<rparr>)"
    using n by (simp add: keyPressEvent_def drawing_example_fields)
  have ne: "?c\<lparr>snapping := False\<rparr> \<noteq> ?c"
  proof
    assume "?c\<lparr>snapping := False\<rparr> = ?c"
    then have "snapping (?c\<lparr>snapping := False\<rparr>) = snapping ?c" by (rule arg_cong)
    with s show False by simp
  qed
  have m: "mode ?c = CREATE" using drawing_example_fields(1) by (simp add: drawing_def)
  show ?thesis
    using s k ne m by (simp add: drawing_example_fields)
qed

section \<open>Properties of the AI-assist bridge\<close>




lemma lru_find_head:
  "key_eq k' k \<Longrightarrow> lru_find key_eq ((k', v) # rest) k = Some (v, (k', v) # rest)"
  by simp






lemma compute_image_embedding_hit:
  assumes "embedding_cache st = (k, v) # rest" "embedding_key_eq orc k (sam, pm)"
  shows "compute_image_embedding orc st sam pm = (st, v)"
  using assms by (simp add: compute_image_embedding_def)


lemma compute_image_embedding_log:
  "log_lines (fst (compute_image_embedding orc st sam pm)) =
     (if lru_find (embedding_key_eq orc) (embedding_cache st) (sam, pm) = None
      then log_lines st @ [(DEBUG, ''Computing image embeddings for model {!r}'')]
      else log_lines st)"
  by (auto simp: compute_image_embedding_def Let_def split: option.splits)






text \<open>
  Claim C7, amended.  When the model returns no annotation, and in \<^verbatim>\<open>ai_polygon\<close> mode
  when the polygon extracted from the mask has fewer than two vertices, the refinement
  step returns normally and the prompt shape is exactly as before.  The state \<open>st1\<close> is
  the module state after the embedding step; its log is the log before the call, followed
  by the debug line of the embedding computation when the embedding was not in the cache.
  In the first case the call appends a warning to that log.  In the second case it appends
  nothing: no diagnostic tells of the discarded refinement.
\<close>

theorem update_shape_with_sam_keeps_prompt_shape:
  fixes orc :: oracles and st :: ai_state and sam :: sam_model and pm :: QPixmap
    and shape :: Shape and cm :: string
  defines "st1 \<equiv> fst (compute_image_embedding orc st sam pm)"
    and "annotations \<equiv> generate orc (sam_name sam)
           (snd (compute_image_embedding orc st sam pm)) (points shape) (point_labels shape)"
  assumes "cm \<in> {''ai_polygon'', ''ai_mask''}"
  shows "(annotations = [] \<longrightarrow>
            update_shape_with_sam orc st sam pm shape cm =
              Inr (st1\<lparr>log_lines := log_lines st1 @
                          [(WARNING, ''No annotations returned by model {!r}'')]\<rparr>, shape)) \<and>
         (cm = ''ai_polygon'' \<and> annotations \<noteq> [] \<and>
          length (compute_polygon_from_mask orc (ann_mask (hd annotations))) < 2 \<longrightarrow>
            update_shape_with_sam orc st sam pm shape cm = Inr (st1, shape)) \<and>
         log_lines st1 =
           log_lines st @
             (if lru_find (embedding_key_eq orc) (embedding_cache st) (sam, pm) = None
              then [(DEBUG, ''Computing image embeddings for model {!r}'')] else [])"
proof -
  obtain s1 e where c: "compute_image_embedding orc st sam pm = (s1, e)" by fastforce
  have cm: "(cm \<notin> {''ai_polygon'', ''ai_mask''}) = False" using assms by simp
  have l: "log_lines st1 =
           log_lines st @
             (if lru_find (embedding_key_eq orc) (embedding_cache st) (sam, pm) = None
              then [(DEBUG, ''Computing image embeddings for model {!r}'')] else [])"
    unfolding st1_def compute_image_embedding_log by simp
  have u: "(annotations = [] \<longrightarrow>
            update_shape_with_sam orc st sam pm shape cm =
              Inr (st1\<lparr>log_lines := log_lines st1 @
                          [(WARNING, ''No annotations returned by model {!r}'')]\<rparr>, shape)) \<and>
         (cm = ''ai_polygon'' \<and> annotations \<noteq> [] \<and>
          length (compute_polygon_from_mask orc (ann_mask (hd annotations))) < 2 \<longrightarrow>
            update_shape_with_sam orc st sam pm shape cm = Inr (st1, shape))"
    unfolding update_shape_with_sam_def cm if_False st1_def annotations_def c
    by (simp add: Let_def)
  from conjunct1 [OF u] conjunct2 [OF u] l show ?thesis by (intro conjI)
qed

lemma warm_state_eq:
  "warm_state =
     \<lparr>model_cache = [],
      embedding_cache = [((example_sam, example_pixmap 2), 0)],
      encode_image_calls = [(example_sam, example_pixmap 2)],
      log_lines = [(DEBUG, ''Computing image embeddings for model {!r}'')],
      next_sam_id = 0\<rparr>"
  by (simp add: warm_state_def compute_image_embedding_def ai_state_init_def Let_def
        lru_store_def example_oracles_def example_sam_def)

lemma warm_state_hit:
  "compute_image_embedding example_oracles warm_state example_sam (example_pixmap i)
     = (warm_state, 0)"
  by (rule compute_image_embedding_hit [where k = "(example_sam, example_pixmap 2)" and rest = "[]"])
     (simp_all add: warm_state_eq embedding_key_eq_def QPixmapForLruCache_eq_def
        QPixmapForLruCache_hash_def example_pixmap_def)

lemma cold_state_miss:
  "compute_image_embedding example_oracles ai_state_init example_sam (example_pixmap 2)
     = (warm_state, 0)"
  by (simp add: warm_state_eq compute_image_embedding_def ai_state_init_def Let_def
        lru_store_def example_oracles_def example_sam_def)

lemma example_generate:
  "generate example_oracles n e (points (prompt_example ps)) ls =
     (if length ps < 2 then [] else [\<lparr>ann_mask = [[True]], ann_bounding_box = None\<rparr>])"
  by (simp add: example_oracles_def prompt_example_def)

lemma example_polygon:
  "compute_polygon_from_mask example_oracles [[True]] = [(0, 0)]"
  by (simp add: example_oracles_def)

text \<open>
  Claim C7, as stated, fails in its last clause: with a polygon of one vertex and the
  embedding already cached, the refinement step returns with the log as it was before the
  call, so no diagnostic is logged.
\<close>

theorem degenerate_polygon_logs_nothing:
  "generate example_oracles (sam_name example_sam) 0
      (points (prompt_example [(1, 1), (2, 2)]))
      (point_labels (prompt_example [(1, 1), (2, 2)])) \<noteq> [] \<and>
   length (compute_polygon_from_mask example_oracles
      (ann_mask (hd (generate example_oracles (sam_name example_sam) 0
         (points (prompt_example [(1, 1), (2, 2)]))
         (point_labels (prompt_example [(1, 1), (2, 2)])))))) < 2 \<and>
   (\<exists>st'. update_shape_with_sam example_oracles warm_state example_sam (example_pixmap 2)
             (prompt_example [(1, 1), (2, 2)]) ''ai_polygon''
            = Inr (st', prompt_example [(1, 1), (2, 2)]) \<and>
          log_lines st' = log_lines warm_state)"
  by (simp add: update_shape_with_sam_def warm_state_hit example_generate example_polygon
        Let_def)

theorem update_shape_with_sam_keeps_prompt_shape_witness:
  "update_shape_with_sam example_oracles warm_state example_sam (example_pixmap 2)
      (prompt_example [(1, 1)]) ''ai_mask''
     = Inr (warm_state\<lparr>log_lines := log_lines warm_state @
              [(WARNING, ''No annotations returned by model {!r}'')]\<rparr>, prompt_example [(1, 1)]) \<and>
   update_shape_with_sam example_oracles warm_state example_sam (example_pixmap 2)
      (prompt_example [(1, 1), (2, 2)]) ''ai_polygon''
     = Inr (warm_state, prompt_example [(1, 1), (2, 2)]) \<and>
   (\<exists>st'. update_shape_with_sam example_oracles ai_state_init example_sam (example_pixmap 2)
             (prompt_example [(1, 1), (2, 2)]) ''ai_polygon''
            = Inr (st', prompt_example [(1, 1), (2, 2)]) \<and>
          log_lines st' = [(DEBUG, ''Computing image embeddings for model {!r}'')])"
proof -
  have m: "''ai_mask'' \<in> {''ai_polygon'', ''ai_mask''}"
    and p: "''ai_polygon'' \<in> {''ai_polygon'', ''ai_mask''}" by simp_all
  from update_shape_with_sam_keeps_prompt_shape
    [OF m, of example_oracles example_sam warm_state "example_pixmap 2" "prompt_example [(1, 1)]"]
  have 1: "update_shape_with_sam example_oracles warm_state example_sam (example_pixmap 2)
      (prompt_example [(1, 1)]) ''ai_mask''
     = Inr (warm_state\<lparr>log_lines := log_lines warm_state @
              [(WARNING, ''No annotations returned by model {!r}'')]\<rparr>, prompt_example [(1, 1)])"
    by (simp add: warm_state_hit example_generate)
  from update_shape_with_sam_keeps_prompt_shape
    [OF p, of example_oracles example_sam warm_state "example_pixmap 2"
       "prompt_example [(1, 1), (2, 2)]"]
  have 2: "update_shape_with_sam example_oracles warm_state example_sam (example_pixmap 2)
      (prompt_example [(1, 1), (2, 2)]) ''ai_polygon''
     = Inr (warm_state, prompt_example [(1, 1), (2, 2)])"
    by (simp add: warm_state_hit example_generate example_polygon)
  have fresh: "lru_find (embedding_key_eq example_oracles) (embedding_cache ai_state_init)
                 (example_sam, example_pixmap 2) = None"
    and empty: "log_lines ai_state_init = []"
    by (simp_all add: ai_state_init_def)
  from update_shape_with_sam_keeps_prompt_shape
    [OF p, of example_oracles example_sam ai_state_init "example_pixmap 2"
       "prompt_example [(1, 1), (2, 2)]"]
  have 3: "update_shape_with_sam example_oracles ai_state_init example_sam (example_pixmap 2)
             (prompt_example [(1, 1), (2, 2)]) ''ai_polygon''
            = Inr (warm_state, prompt_example [(1, 1), (2, 2)]) \<and>
          log_lines warm_state = [(DEBUG, ''Computing image embeddings for model {!r}'')]"
    by (simp add: cold_state_miss example_generate example_polygon fresh empty)
  from 1 2 3 show ?thesis by blast
qed





section \<open>Properties of clamping to the image boundary\<close>

lemma upt_four: "[0..<4] = [0, 1, 2, 3]"
  by (simp add: upt_rec)

lemma narrow_example_pixmap:
  "pm_width (pixmap narrow_example) = 1" "pm_height (pixmap narrow_example) = 10"
  by (simp_all add: narrow_example_def)

lemma narrow_edge_no_candidate:
  assumes "rnd 0 = 0" and "i < 4"
  shows "edge_candidate rnd (0, y1) (0, y2) [(0, 0), (0, 0), (0, h), (0, h)] i = None"
proof -
  from assms(2) consider "i = 0" | "i = 1" | "i = 2" | "i = 3" by linarith
  then show ?thesis
    using assms(1) by cases (simp_all add: edge_candidate_def)
qed

text \<open>
  Claim C9.  The claim says that \<^verbatim>\<open>intersectionPoint\<close> returns a point of the boundary
  for every point \<open>p1\<close> inside the image and every point \<open>p2\<close> outside it.  The source
  takes \<^verbatim>\<open>min\<close> of the candidates of \<^verbatim>\<open>intersectingEdges\<close> without a guard, and its
  comments take for granted that an intersecting edge is found.  On an image that is one
  pixel wide, with \<open>p2\<close> in the column of the image (above or below it), two edges have no
  length and the other two are parallel to the segment: every denominator is zero, there
  is no candidate, and \<^verbatim>\<open>min\<close> raises \<^verbatim>\<open>ValueError\<close>.  This holds for every rounding that
  maps zero to zero.
\<close>

theorem intersectionPoint_raises_on_narrow_image:
  assumes "rnd 0 = 0" and "pm_width (pixmap c) = 1" and "fst p2 = 0"
  shows "intersectionPoint rnd c p1 p2 = Inl ValueError"
proof -
  have x1: "min (max (fst p1) 0) (0::real) = 0" by simp
  note none = narrow_edge_no_candidate [where rnd = rnd, OF assms(1)]
  have "intersectingEdges rnd (0, y1) (0, y2) [(0, 0), (0, 0), (0, h), (0, h)] = []" for y1 y2 h
    by (simp add: intersectingEdges_def upt_four none List.map_filter_simps)
  then show ?thesis
    by (simp add: intersectionPoint_def Let_def assms(2,3) x1 py_min_def)
qed

theorem intersectionPoint_raises_on_narrow_image_witness:
  "\<not> outOfPixmap narrow_example (0, 5) \<and> outOfPixmap narrow_example (0, 20) \<and>
   intersectionPoint (\<lambda>x. x) narrow_example (0, 5) (0, 20) = Inl ValueError"
proof -
  have "intersectionPoint (\<lambda>x. x) narrow_example (0, 5) (0, 20) = Inl ValueError"
    by (rule intersectionPoint_raises_on_narrow_image [where rnd = "\<lambda>x. x"])
       (simp_all add: narrow_example_pixmap)
  then show ?thesis by (simp add: outOfPixmap_def narrow_example_pixmap)
qed

end
